theory Spec2Isabelle
  imports Complex_Main
begin

section \<open>Data model of the performance monitor\<close>

text \<open>
  A JavaScript number is modelled as the \<^typ>\<open>real\<close> it denotes: the timings and
  layout-shift values delivered by the browser are finite. Comparisons are those of the
  reals, and the literals \<^verbatim>\<open>0.1\<close> and \<^verbatim>\<open>0.25\<close> stand for the decimal numbers.
  The addition \<^verbatim>\<open>clsValue += entry.value\<close> of the CLS observer is the addition of
  IEEE 754 doubles, which rounds: it is a parameter \<open>add\<close> of the model of that
  observer, and nothing is assumed of it but what a theorem states. The difference
  \<^verbatim>\<open>entry.processingStart - entry.startTime\<close> of the FID observer is taken in the
  reals. An optional field (\<^verbatim>\<open>firstContentfulPaint?: number\<close>) is an
  \<^typ>\<open>real option\<close>, \<^const>\<open>None\<close> standing for \<^verbatim>\<open>undefined\<close>.
\<close>

text \<open>
  The browser's \<^verbatim>\<open>PerformanceEntry\<close> and its extension
  \<^verbatim>\<open>PerformanceResourceTiming\<close>; \<^verbatim>\<open>transferSize\<close> is a byte count.
\<close>

record PerformanceEntry =
  name :: string
  startTime :: real
  duration :: real

record PerformanceResourceTiming = PerformanceEntry +
  transferSize :: int

record PerformanceMetrics =
  firstContentfulPaint :: "real option"
  largestContentfulPaint :: "real option"
  firstInputDelay :: "real option"
  cumulativeLayoutShift :: "real option"
  totalBlockingTime :: "real option"
  timeToInteractive :: "real option"
  resourceTiming :: "PerformanceResourceTiming list option"

text \<open>The initial state \<^verbatim>\<open>useState<PerformanceMetrics>({})\<close>: every field unset.\<close>

definition emptyMetrics :: PerformanceMetrics where
  "emptyMetrics =
     \<lparr>firstContentfulPaint = None, largestContentfulPaint = None,
      firstInputDelay = None, cumulativeLayoutShift = None,
      totalBlockingTime = None, timeToInteractive = None, resourceTiming = None\<rparr>"

text \<open>
  JavaScript truthiness of an optional number: \<^verbatim>\<open>undefined\<close> and \<^verbatim>\<open>0\<close> are falsy.
  A comparison \<^verbatim>\<open>x > c\<close> with \<^verbatim>\<open>x\<close> undefined is false.
\<close>

definition truthy :: "real option \<Rightarrow> bool" where
  "truthy x = (case x of None \<Rightarrow> False | Some v \<Rightarrow> v \<noteq> 0)"

definition gt :: "real option \<Rightarrow> real \<Rightarrow> bool" where
  "gt x c = (case x of None \<Rightarrow> False | Some v \<Rightarrow> v > c)"

section \<open>The score calculator\<close>

text \<open>
  \<^verbatim>\<open>calculatePerformanceScore\<close>: the local variable \<^verbatim>\<open>score\<close> starts at 100 and is
  threaded through the four \<^verbatim>\<open>if / else if\<close> statements in source order.
  \<open>deductedScore\<close> is its value when the \<^verbatim>\<open>return\<close> is reached; the function returns
  \<^verbatim>\<open>Math.max(0, score)\<close>.
\<close>

definition deductedScore :: "PerformanceMetrics \<Rightarrow> int" where
  "deductedScore metrics =
     (let score = 100;
          score =
            (if truthy (firstContentfulPaint metrics) \<and> gt (firstContentfulPaint metrics) 1800
             then score - 15
             else if truthy (firstContentfulPaint metrics) \<and> gt (firstContentfulPaint metrics) 1000
             then score - 5
             else score);
          score =
            (if truthy (largestContentfulPaint metrics) \<and> gt (largestContentfulPaint metrics) 4000
             then score - 20
             else if truthy (largestContentfulPaint metrics) \<and> gt (largestContentfulPaint metrics) 2500
             then score - 10
             else score);
          score =
            (if truthy (firstInputDelay metrics) \<and> gt (firstInputDelay metrics) 300
             then score - 15
             else if truthy (firstInputDelay metrics) \<and> gt (firstInputDelay metrics) 100
             then score - 5
             else score);
          score =
            (if truthy (cumulativeLayoutShift metrics) \<and> gt (cumulativeLayoutShift metrics) 0.25
             then score - 20
             else if truthy (cumulativeLayoutShift metrics) \<and> gt (cumulativeLayoutShift metrics) 0.1
             then score - 10
             else score)
      in score)"

definition calculatePerformanceScore :: "PerformanceMetrics \<Rightarrow> int" where
  "calculatePerformanceScore metrics = max 0 (deductedScore metrics)"

text \<open>
  The deduction table as the specification words it: per metric a needs-improvement
  threshold and penalty, a poor threshold and penalty, the poor check first, and a
  single tier applied; an unset metric deducts nothing.
\<close>

definition spec_tier :: "real \<Rightarrow> int \<Rightarrow> real \<Rightarrow> int \<Rightarrow> real option \<Rightarrow> int" where
  "spec_tier ni ni_penalty poor poor_penalty x =
     (case x of
        None \<Rightarrow> 0
      | Some v \<Rightarrow> if v > poor then poor_penalty else if v > ni then ni_penalty else 0)"

definition spec_fcp :: "PerformanceMetrics \<Rightarrow> int" where
  "spec_fcp m = spec_tier 1000 5 1800 15 (firstContentfulPaint m)"

definition spec_lcp :: "PerformanceMetrics \<Rightarrow> int" where
  "spec_lcp m = spec_tier 2500 10 4000 20 (largestContentfulPaint m)"

definition spec_fid :: "PerformanceMetrics \<Rightarrow> int" where
  "spec_fid m = spec_tier 100 5 300 15 (firstInputDelay m)"

definition spec_cls :: "PerformanceMetrics \<Rightarrow> int" where
  "spec_cls m = spec_tier 0.1 10 0.25 20 (cumulativeLayoutShift m)"

definition spec_score :: "PerformanceMetrics \<Rightarrow> int" where
  "spec_score m = max 0 (100 - (spec_fcp m + spec_lcp m + spec_fid m + spec_cls m))"


section \<open>The metrics aggregator and the observers\<close>

text \<open>
  The state of one run of the effect of \<^verbatim>\<open>PerformanceMonitor\<close>: the React state
  \<^verbatim>\<open>metrics\<close>, the closure variable \<^verbatim>\<open>clsValue\<close> of \<^verbatim>\<open>observeWebVitals\<close>,
  and \<open>emitted\<close>, the arguments of the calls of \<^verbatim>\<open>updateMetrics\<close> in call order
  (what \<^verbatim>\<open>console.log\<close> prints under \<^verbatim>\<open>enableConsoleLogging\<close>).
  A \<^verbatim>\<open>Partial<PerformanceMetrics>\<close> is a \<^typ>\<open>PerformanceMetrics\<close> with the absent
  fields \<^const>\<open>None\<close>. The updater of \<^verbatim>\<open>setMetrics(prev => ...)\<close> reads
  \<^verbatim>\<open>prev\<close> and the constant \<^verbatim>\<open>newMetrics\<close> only, so the state it leaves does
  not depend on when React runs it: the model applies it at the call.
\<close>

record MonitorState =
  metrics :: PerformanceMetrics
  clsValue :: real
  emitted :: "PerformanceMetrics list"

definition initialMonitor :: MonitorState where
  "initialMonitor = \<lparr>metrics = emptyMetrics, clsValue = 0, emitted = []\<rparr>"

text \<open>The object spread \<^verbatim>\<open>{ ...prev, ...newMetrics }\<close>, field by field.\<close>

definition spread_field :: "'a option \<Rightarrow> 'a option \<Rightarrow> 'a option" where
  "spread_field prev new = (case new of None \<Rightarrow> prev | Some v \<Rightarrow> Some v)"

definition spread :: "PerformanceMetrics \<Rightarrow> PerformanceMetrics \<Rightarrow> PerformanceMetrics" where
  "spread prev newMetrics =
     \<lparr>firstContentfulPaint =
        spread_field (firstContentfulPaint prev) (firstContentfulPaint newMetrics),
      largestContentfulPaint =
        spread_field (largestContentfulPaint prev) (largestContentfulPaint newMetrics),
      firstInputDelay = spread_field (firstInputDelay prev) (firstInputDelay newMetrics),
      cumulativeLayoutShift =
        spread_field (cumulativeLayoutShift prev) (cumulativeLayoutShift newMetrics),
      totalBlockingTime = spread_field (totalBlockingTime prev) (totalBlockingTime newMetrics),
      timeToInteractive = spread_field (timeToInteractive prev) (timeToInteractive newMetrics),
      resourceTiming = spread_field (resourceTiming prev) (resourceTiming newMetrics)\<rparr>"

definition updateMetrics :: "PerformanceMetrics \<Rightarrow> MonitorState \<Rightarrow> MonitorState" where
  "updateMetrics newMetrics s =
     (let updated = spread (metrics s) newMetrics
      in s\<lparr>metrics := updated, emitted := emitted s @ [newMetrics]\<rparr>)"

text \<open>
  The callback of \<^verbatim>\<open>fcpObserver\<close>, run on the entries of one delivered list:
  \<^verbatim>\<open>entries.find\<close> returns the first entry of that name.
\<close>

definition fcpObserver :: "PerformanceEntry list \<Rightarrow> MonitorState \<Rightarrow> MonitorState" where
  "fcpObserver entries s =
     (case find (\<lambda>entry. name entry = ''first-contentful-paint'') entries of
        Some fcp \<Rightarrow> updateMetrics (emptyMetrics\<lparr>firstContentfulPaint := Some (startTime fcp)\<rparr>) s
      | None \<Rightarrow> s)"

text \<open>
  The callback of \<^verbatim>\<open>lcpObserver\<close>: \<^verbatim>\<open>entries[entries.length - 1]\<close> is
  \<^verbatim>\<open>undefined\<close> on an empty list.
\<close>

definition lcpObserver :: "PerformanceEntry list \<Rightarrow> MonitorState \<Rightarrow> MonitorState" where
  "lcpObserver entries s =
     (if entries = [] then s
      else updateMetrics
             (emptyMetrics\<lparr>largestContentfulPaint := Some (startTime (last entries))\<rparr>) s)"

text \<open>
  The callback of \<^verbatim>\<open>fidObserver\<close>. Its entries are typed \<^verbatim>\<open>any\<close>, so either
  field may be missing; the guard \<^verbatim>\<open>entry.processingStart && entry.startTime\<close>
  tests truthiness.
\<close>

record FirstInputEntry =
  processingStart :: "real option"
  startTime_any :: "real option"

definition fid_entry :: "FirstInputEntry \<Rightarrow> MonitorState \<Rightarrow> MonitorState" where
  "fid_entry entry s =
     (if truthy (processingStart entry) \<and> truthy (startTime_any entry)
      then let fid = the (processingStart entry) - the (startTime_any entry)
           in updateMetrics (emptyMetrics\<lparr>firstInputDelay := Some fid\<rparr>) s
      else s)"

definition fidObserver :: "FirstInputEntry list \<Rightarrow> MonitorState \<Rightarrow> MonitorState" where
  "fidObserver entries s = fold fid_entry entries s"

text \<open>
  The callback of \<^verbatim>\<open>clsObserver\<close>, with the captured variable \<^verbatim>\<open>clsValue\<close>;
  \<open>add\<close> is the addition of doubles.
\<close>

record LayoutShift =
  hadRecentInput :: bool
  "value" :: real

definition cls_entry ::
  "(real \<Rightarrow> real \<Rightarrow> real) \<Rightarrow> LayoutShift \<Rightarrow> MonitorState \<Rightarrow> MonitorState" where
  "cls_entry add entry s =
     (if \<not> hadRecentInput entry
      then let s' = s\<lparr>clsValue := add (clsValue s) (value entry)\<rparr>
           in updateMetrics (emptyMetrics\<lparr>cumulativeLayoutShift := Some (clsValue s')\<rparr>) s'
      else s)"

definition clsObserver ::
  "(real \<Rightarrow> real \<Rightarrow> real) \<Rightarrow> LayoutShift list \<Rightarrow> MonitorState \<Rightarrow> MonitorState" where
  "clsObserver add entries s = fold (cls_entry add) entries s"

section \<open>Resource timing\<close>

text \<open>
  \<^verbatim>\<open>.filter(entry => entry.transferSize > 100000)
  .sort((a, b) => b.transferSize - a.transferSize).slice(0, 10)\<close>:
  \<^verbatim>\<open>Array.prototype.sort\<close> is stable, as is \<^const>\<open>sort_key\<close>.
\<close>

definition largeResources :: "PerformanceResourceTiming list \<Rightarrow> PerformanceResourceTiming list" where
  "largeResources resourceEntries =
     take 10 (sort_key (\<lambda>a. - transferSize a)
       (filter (\<lambda>entry. transferSize entry > 100000) resourceEntries))"

text \<open>
  \<^verbatim>\<open>collectResourceTiming\<close>; \<open>hasPerformance\<close> is the test
  \<^verbatim>\<open>"performance" in window && window.performance.getEntriesByType\<close> and
  \<open>resourceEntries\<close> what \<^verbatim>\<open>getEntriesByType("resource")\<close> returns.
\<close>

definition collectResourceTiming ::
  "bool \<Rightarrow> bool \<Rightarrow> PerformanceResourceTiming list \<Rightarrow> MonitorState \<Rightarrow> MonitorState" where
  "collectResourceTiming enableResourceTiming hasPerformance resourceEntries s =
     (if \<not> enableResourceTiming then s
      else if hasPerformance
      then updateMetrics (emptyMetrics\<lparr>resourceTiming := Some (largeResources resourceEntries)\<rparr>) s
      else s)"

section \<open>Registration and cleanup of the observers\<close>

text \<open>
  What the browser holds for one mounted \<^verbatim>\<open>PerformanceMonitor\<close>: the observers
  whose \<^verbatim>\<open>observe\<close> succeeded and that were not disconnected, the listeners added
  to the \<^verbatim>\<open>load\<close> event, the pending \<^verbatim>\<open>setTimeout\<close> callbacks; and the
  component's \<^verbatim>\<open>observerRef.current\<close>.
\<close>

datatype observer = FcpObserver | LcpObserver | FidObserver | ClsObserver

record Host =
  observing :: "observer list"
  observerRef :: "observer option"
  loadListeners :: nat
  pendingTimeouts :: nat

definition unmounted :: Host where
  "unmounted = \<lparr>observing = [], observerRef = None, loadListeners = 0, pendingTimeouts = 0\<rparr>"

text \<open>
  The body of the \<^verbatim>\<open>try\<close> block: the four \<^verbatim>\<open>observe\<close> calls in order. A call
  for an entry type the browser rejects (\<open>\<not> supported ob\<close>) throws: the calls before it
  have taken effect, the rest of the block is skipped. The result says whether the block
  ran to its end.
\<close>

fun observe_in_order :: "(observer \<Rightarrow> bool) \<Rightarrow> observer list \<Rightarrow> Host \<Rightarrow> bool \<times> Host" where
  "observe_in_order supported [] h = (True, h)"
| "observe_in_order supported (ob # obs) h =
     (if supported ob
      then observe_in_order supported obs (h\<lparr>observing := observing h @ [ob]\<rparr>)
      else (False, h))"

definition observeWebVitals :: "bool \<Rightarrow> (observer \<Rightarrow> bool) \<Rightarrow> Host \<Rightarrow> Host" where
  "observeWebVitals hasPerformanceObserver supported h =
     (if hasPerformanceObserver
      then case observe_in_order supported
                  [FcpObserver, LcpObserver, FidObserver, ClsObserver] h of
             (True, h') \<Rightarrow> h'\<lparr>observerRef := Some FcpObserver\<rparr>
           | (False, h') \<Rightarrow> h'
      else h)"

text \<open>
  The effect: \<^verbatim>\<open>observeWebVitals()\<close>, then either the immediate collection
  (\<^verbatim>\<open>document.readyState === "complete"\<close>, no handle left behind) or a listener on
  \<^verbatim>\<open>load\<close>. The listener, when the event fires, schedules the collection with
  \<^verbatim>\<open>setTimeout(..., 1000)\<close>; the timeout, when it fires, is no longer pending.
\<close>

definition mount :: "bool \<Rightarrow> (observer \<Rightarrow> bool) \<Rightarrow> bool \<Rightarrow> Host \<Rightarrow> Host" where
  "mount hasPerformanceObserver supported readyStateComplete h =
     (let h' = observeWebVitals hasPerformanceObserver supported h
      in if readyStateComplete then h' else h'\<lparr>loadListeners := loadListeners h' + 1\<rparr>)"

definition loadEvent :: "Host \<Rightarrow> Host" where
  "loadEvent h = h\<lparr>pendingTimeouts := pendingTimeouts h + loadListeners h\<rparr>"

text \<open>The function the effect returns: \<^verbatim>\<open>observerRef.current.disconnect()\<close>.\<close>

definition cleanup :: "Host \<Rightarrow> Host" where
  "cleanup h =
     (case observerRef h of
        Some ob \<Rightarrow> h\<lparr>observing := removeAll ob (observing h)\<rparr>
      | None \<Rightarrow> h)"

section \<open>The debounced state hook\<close>

text \<open>
  \<^verbatim>\<open>useOptimizedState\<close>. The argument of the setter is a value or a function of the
  previous state. \<open>storedState\<close> is the value React holds for \<^verbatim>\<open>state\<close>;
  \<open>state\<close> is the constant \<^verbatim>\<open>state\<close> of the latest render, which the closure
  \<^verbatim>\<open>setOptimizedState\<close> of that render captures (its dependencies are
  \<^verbatim>\<open>[debounceMs, state]\<close>). \<open>timeouts\<close> are the pending \<^verbatim>\<open>setTimeout\<close>
  callbacks of the hook: handle, time due, and the \<^verbatim>\<open>value\<close> and \<^verbatim>\<open>state\<close> of
  the closure that scheduled it. Handles are positive, hence truthy.
\<close>

datatype 'a SetStateAction = Value 'a | Updater "'a \<Rightarrow> 'a"

definition resolve :: "'a SetStateAction \<Rightarrow> 'a \<Rightarrow> 'a" where
  "resolve action prev = (case action of Value v \<Rightarrow> v | Updater f \<Rightarrow> f prev)"

record 'a OptimizedState =
  storedState :: 'a
  state :: 'a
  debouncedState :: 'a
  timeoutRef :: "nat option"
  nextHandle :: nat
  timeouts :: "(nat \<times> nat \<times> 'a SetStateAction \<times> 'a) list"

definition useOptimizedState :: "'a \<Rightarrow> 'a OptimizedState" where
  "useOptimizedState initialState =
     \<lparr>storedState = initialState, state = initialState, debouncedState = initialState,
      timeoutRef = None, nextHandle = 1, timeouts = []\<rparr>"

definition clearTimeout :: "nat \<Rightarrow> (nat \<times> 'c) list \<Rightarrow> (nat \<times> 'c) list" where
  "clearTimeout handle ts = filter (\<lambda>t. fst t \<noteq> handle) ts"

definition setOptimizedState ::
  "nat \<Rightarrow> nat \<Rightarrow> 'a SetStateAction \<Rightarrow> 'a OptimizedState \<Rightarrow> 'a OptimizedState" where
  "setOptimizedState now debounceMs val h =
     (let h1 = h\<lparr>storedState := resolve val (storedState h)\<rparr>;
          h2 = (case timeoutRef h1 of
                  Some handle \<Rightarrow> h1\<lparr>timeouts := clearTimeout handle (timeouts h1)\<rparr>
                | None \<Rightarrow> h1);
          handle = nextHandle h2
      in h2\<lparr>timeoutRef := Some handle, nextHandle := handle + 1,
             timeouts := timeouts h2 @ [(handle, now + debounceMs, val, state h2)]\<rparr>)"

text \<open>
  The timer callback:
  \<^verbatim>\<open>setDebouncedState(typeof value === "function" ? value(state) : value)\<close>.
\<close>

definition fire :: "nat \<times> nat \<times> 'a SetStateAction \<times> 'a \<Rightarrow> 'a OptimizedState \<Rightarrow> 'a OptimizedState" where
  "fire t h = (case t of (handle, due, val, captured) \<Rightarrow> h\<lparr>debouncedState := resolve val captured\<rparr>)"

text \<open>A render makes the stored state the \<^verbatim>\<open>state\<close> of the component's closures.\<close>

definition render :: "'a OptimizedState \<Rightarrow> 'a OptimizedState" where
  "render h = h\<lparr>state := storedState h\<rparr>"

text \<open>
  The clock reaches \<open>now\<close>: every timeout due by then runs, in the order scheduled, and
  the component renders.
\<close>

definition advance :: "nat \<Rightarrow> 'a OptimizedState \<Rightarrow> 'a OptimizedState" where
  "advance now h =
     render (fold fire (filter (\<lambda>t. fst (snd t) \<le> now) (timeouts h))
               (h\<lparr>timeouts := filter (\<lambda>t. \<not> fst (snd t) \<le> now) (timeouts h)\<rparr>))"

text \<open>
  An event handler running at time \<open>now\<close> calls the setter of the latest render once per
  element of \<open>vals\<close>; React renders when the handler has returned.
\<close>

definition handler ::
  "nat \<Rightarrow> nat \<Rightarrow> 'a SetStateAction list \<Rightarrow> 'a OptimizedState \<Rightarrow> 'a OptimizedState" where
  "handler now debounceMs vals h =
     render (fold (setOptimizedState now debounceMs) vals (advance now h))"

section \<open>The batched state hook\<close>

text \<open>
  \<^verbatim>\<open>useBatchedState\<close> over objects as maps from field names to values; the spread
  \<^verbatim>\<open>{ ...a, ...b }\<close> is \<open>a ++ b\<close>. \<open>batchTimeouts\<close> are the handles of the pending
  zero-delay timeouts, each of which runs \<open>flush\<close>. \<open>queuedUpdaters\<close> counts the
  updaters \<^verbatim>\<open>prevState => ({ ...prevState, ...pendingUpdatesRef.current })\<close> that
  React has queued and not yet run.
\<close>

record ('k, 'v) BatchedState =
  batchedState :: "'k \<rightharpoonup> 'v"
  pendingUpdatesRef :: "'k \<rightharpoonup> 'v"
  batchTimeoutRef :: "nat option"
  batchNextHandle :: nat
  batchTimeouts :: "nat list"
  queuedUpdaters :: nat

definition useBatchedState :: "('k \<rightharpoonup> 'v) \<Rightarrow> ('k, 'v) BatchedState" where
  "useBatchedState initialState =
     \<lparr>batchedState = initialState, pendingUpdatesRef = Map.empty, batchTimeoutRef = None,
      batchNextHandle = 1, batchTimeouts = [], queuedUpdaters = 0\<rparr>"

definition batchedSetState :: "('k \<rightharpoonup> 'v) \<Rightarrow> ('k, 'v) BatchedState \<Rightarrow> ('k, 'v) BatchedState" where
  "batchedSetState updates h =
     (let h1 = h\<lparr>pendingUpdatesRef := pendingUpdatesRef h ++ updates\<rparr>;
          h2 = (case batchTimeoutRef h1 of
                  Some handle \<Rightarrow> h1\<lparr>batchTimeouts := removeAll handle (batchTimeouts h1)\<rparr>
                | None \<Rightarrow> h1);
          handle = batchNextHandle h2
      in h2\<lparr>batchTimeoutRef := Some handle, batchNextHandle := handle + 1,
             batchTimeouts := batchTimeouts h2 @ [handle]\<rparr>)"

text \<open>
  The updater, when React runs it, reads \<^verbatim>\<open>pendingUpdatesRef.current\<close> as it is
  then.
\<close>

definition run_updater :: "('k, 'v) BatchedState \<Rightarrow> ('k, 'v) BatchedState" where
  "run_updater h = h\<lparr>batchedState := batchedState h ++ pendingUpdatesRef h\<rparr>"

text \<open>
  The timeout callback: \<^verbatim>\<open>setState(prevState => ({ ...prevState,
  ...pendingUpdatesRef.current }))\<close>, then \<^verbatim>\<open>pendingUpdatesRef.current = {}\<close>.
  React, which is not part of the repository, decides when the updater runs: at the call
  of \<^verbatim>\<open>setState\<close> on its eager path, which it takes for a component that has had
  no state update yet, and otherwise at the next render, after the callback has
  returned. The choice is the parameter \<open>eager\<close>.
\<close>

definition flush :: "bool \<Rightarrow> ('k, 'v) BatchedState \<Rightarrow> ('k, 'v) BatchedState" where
  "flush eager h =
     (let h1 = (if eager then run_updater h
                else h\<lparr>queuedUpdaters := queuedUpdaters h + 1\<rparr>)
      in h1\<lparr>pendingUpdatesRef := Map.empty\<rparr>)"

text \<open>The next scheduling tick runs the callback of every pending timeout.\<close>

definition tick :: "bool \<Rightarrow> ('k, 'v) BatchedState \<Rightarrow> ('k, 'v) BatchedState" where
  "tick eager h = fold (\<lambda>handle. flush eager) (batchTimeouts h) (h\<lparr>batchTimeouts := []\<rparr>)"

text \<open>The render that follows runs the queued updaters.\<close>

fun run_queued :: "nat \<Rightarrow> ('k, 'v) BatchedState \<Rightarrow> ('k, 'v) BatchedState" where
  "run_queued 0 h = h"
| "run_queued (Suc n) h = run_queued n (run_updater h)"

definition render_batched :: "('k, 'v) BatchedState \<Rightarrow> ('k, 'v) BatchedState" where
  "render_batched h = run_queued (queuedUpdaters h) (h\<lparr>queuedUpdaters := 0\<rparr>)"

text \<open>
  The pending timeouts of a debounced hook are none, or the one \<^verbatim>\<open>timeoutRef\<close>
  holds.
\<close>

definition one_pending :: "'a OptimizedState \<Rightarrow> bool" where
  "one_pending h =
     (case timeoutRef h of
        None \<Rightarrow> timeouts h = []
      | Some handle \<Rightarrow> timeouts h = [] \<or> map fst (timeouts h) = [handle])"

text \<open>
  The pending timeouts of a batched hook are none, or the one \<^verbatim>\<open>batchTimeoutRef\<close>
  holds.
\<close>

definition one_timeout :: "('k, 'v) BatchedState \<Rightarrow> bool" where
  "one_timeout h =
     (case batchTimeoutRef h of
        None \<Rightarrow> batchTimeouts h = []
      | Some handle \<Rightarrow> batchTimeouts h = [] \<or> batchTimeouts h = [handle])"

section \<open>Entries used in examples, and the entries the FID guard lets through\<close>

definition paint :: "string \<Rightarrow> real \<Rightarrow> PerformanceEntry" where
  "paint n t = \<lparr>name = n, startTime = t, duration = 0\<rparr>"

definition resource :: "string \<Rightarrow> int \<Rightarrow> PerformanceResourceTiming" where
  "resource n bytes = \<lparr>name = n, startTime = 0, duration = 0, transferSize = bytes\<rparr>"

text \<open>
  An entry passes the guard of \<^verbatim>\<open>fidObserver\<close> when both fields are present and
  neither is 0; \<open>delay\<close> is \<^verbatim>\<open>processingStart - startTime\<close> of such an entry.
\<close>

definition qualifying :: "FirstInputEntry \<Rightarrow> bool" where
  "qualifying e =
     (case (processingStart e, startTime_any e) of
        (Some p, Some t) \<Rightarrow> p \<noteq> 0 \<and> t \<noteq> 0
      | _ \<Rightarrow> False)"

definition delay :: "FirstInputEntry \<Rightarrow> real" where
  "delay e =
     (case (processingStart e, startTime_any e) of
        (Some p, Some t) \<Rightarrow> p - t
      | _ \<Rightarrow> 0)"

section \<open>Properties of the score calculator\<close>

lemma spec_tier_cases:
  "spec_tier ni np po pp x = 0 \<or> spec_tier ni np po pp x = np \<or> spec_tier ni np po pp x = pp"
  by (simp add: spec_tier_def split: option.split)

lemma spec_tier_mono:
  assumes "v \<le> v'" "ni \<le> po" "0 \<le> np" "np \<le> pp"
  shows "spec_tier ni np po pp (Some v) \<le> spec_tier ni np po pp (Some v')"
  using assms by (auto simp: spec_tier_def)

lemma spec_tier_nonneg:
  "0 \<le> np \<Longrightarrow> 0 \<le> pp \<Longrightarrow> 0 \<le> spec_tier ni np po pp x"
  by (simp add: spec_tier_def split: option.split)

lemma spec_tier_le:
  "0 \<le> np \<Longrightarrow> np \<le> pp \<Longrightarrow> spec_tier ni np po pp x \<le> pp"
  by (simp add: spec_tier_def split: option.split)

lemma tier_statement:
  fixes s np pp :: int
  assumes "0 \<le> ni" "ni \<le> po"
  shows "(if truthy x \<and> gt x po then s - pp else if truthy x \<and> gt x ni then s - np else s)
           = s - spec_tier ni np po pp x"
  using assms by (cases x) (auto simp: truthy_def gt_def spec_tier_def)

lemma deductedScore_tiers:
  "deductedScore m = 100 - (spec_fcp m + spec_lcp m + spec_fid m + spec_cls m)"
proof -
  have a: "(0::real) \<le> 1000 \<and> (1000::real) \<le> 1800" by simp
  have b: "(0::real) \<le> 2500 \<and> (2500::real) \<le> 4000" by simp
  have c: "(0::real) \<le> 100 \<and> (100::real) \<le> 300" by simp
  have d: "(0::real) \<le> 0.1 \<and> (0.1::real) \<le> 0.25" by simp
  show ?thesis
    unfolding deductedScore_def Let_def spec_fcp_def spec_lcp_def spec_fid_def spec_cls_def
      tier_statement [OF conjunct1 [OF a] conjunct2 [OF a]]
      tier_statement [OF conjunct1 [OF b] conjunct2 [OF b]]
      tier_statement [OF conjunct1 [OF c] conjunct2 [OF c]]
      tier_statement [OF conjunct1 [OF d] conjunct2 [OF d]]
    by simp
qed

lemma deductions_bounds:
  "0 \<le> spec_fcp m \<and> spec_fcp m \<le> 15 \<and> 0 \<le> spec_lcp m \<and> spec_lcp m \<le> 20 \<and>
   0 \<le> spec_fid m \<and> spec_fid m \<le> 15 \<and> 0 \<le> spec_cls m \<and> spec_cls m \<le> 20"
  unfolding spec_fcp_def spec_lcp_def spec_fid_def spec_cls_def
  by (simp add: spec_tier_nonneg spec_tier_le)

lemma deductedScore_bounds: "30 \<le> deductedScore m \<and> deductedScore m \<le> 100"
  using deductions_bounds [of m] by (simp add: deductedScore_tiers)

lemma score_eq_spec: "calculatePerformanceScore m = spec_score m"
  by (simp add: calculatePerformanceScore_def spec_score_def deductedScore_tiers)

lemma score_unclamped:
  "calculatePerformanceScore m = 100 - (spec_fcp m + spec_lcp m + spec_fid m + spec_cls m)"
  using deductedScore_bounds [of m]
  by (simp add: calculatePerformanceScore_def deductedScore_tiers)

text \<open>
  Claim C1. The calculator computes the specification's table: the score is 100 minus one
  deduction per metric, each deduction being nothing, the needs-improvement penalty or
  the poor penalty. A metric above its poor threshold costs exactly the poor penalty
  against the same snapshot with the metric unset (the lower tier is not added to it); a
  metric between the two thresholds costs the needs-improvement penalty. The snapshot
  {FCP: 2000, LCP: 3000, FID: 50, CLS: 0.05} scores 75.
\<close>

theorem score_single_tier:
  "calculatePerformanceScore m = spec_score m
   \<and> (spec_fcp m = 0 \<or> spec_fcp m = 5 \<or> spec_fcp m = 15)
   \<and> (spec_lcp m = 0 \<or> spec_lcp m = 10 \<or> spec_lcp m = 20)
   \<and> (spec_fid m = 0 \<or> spec_fid m = 5 \<or> spec_fid m = 15)
   \<and> (spec_cls m = 0 \<or> spec_cls m = 10 \<or> spec_cls m = 20)
   \<and> (a1 > 1800 \<longrightarrow> calculatePerformanceScore (m\<lparr>firstContentfulPaint := Some a1\<rparr>)
         = calculatePerformanceScore (m\<lparr>firstContentfulPaint := None\<rparr>) - 15)
   \<and> (a2 > 4000 \<longrightarrow> calculatePerformanceScore (m\<lparr>largestContentfulPaint := Some a2\<rparr>)
         = calculatePerformanceScore (m\<lparr>largestContentfulPaint := None\<rparr>) - 20)
   \<and> (a3 > 300 \<longrightarrow> calculatePerformanceScore (m\<lparr>firstInputDelay := Some a3\<rparr>)
         = calculatePerformanceScore (m\<lparr>firstInputDelay := None\<rparr>) - 15)
   \<and> (a4 > 0.25 \<longrightarrow> calculatePerformanceScore (m\<lparr>cumulativeLayoutShift := Some a4\<rparr>)
         = calculatePerformanceScore (m\<lparr>cumulativeLayoutShift := None\<rparr>) - 20)
   \<and> (1000 < b1 \<and> b1 \<le> 1800 \<longrightarrow> calculatePerformanceScore (m\<lparr>firstContentfulPaint := Some b1\<rparr>)
         = calculatePerformanceScore (m\<lparr>firstContentfulPaint := None\<rparr>) - 5)
   \<and> (2500 < b2 \<and> b2 \<le> 4000 \<longrightarrow> calculatePerformanceScore (m\<lparr>largestContentfulPaint := Some b2\<rparr>)
         = calculatePerformanceScore (m\<lparr>largestContentfulPaint := None\<rparr>) - 10)
   \<and> (100 < b3 \<and> b3 \<le> 300 \<longrightarrow> calculatePerformanceScore (m\<lparr>firstInputDelay := Some b3\<rparr>)
         = calculatePerformanceScore (m\<lparr>firstInputDelay := None\<rparr>) - 5)
   \<and> (0.1 < b4 \<and> b4 \<le> 0.25 \<longrightarrow> calculatePerformanceScore (m\<lparr>cumulativeLayoutShift := Some b4\<rparr>)
         = calculatePerformanceScore (m\<lparr>cumulativeLayoutShift := None\<rparr>) - 10)
   \<and> calculatePerformanceScore
        (m\<lparr>firstContentfulPaint := Some 2000, largestContentfulPaint := Some 3000,
           firstInputDelay := Some 50, cumulativeLayoutShift := Some 0.05\<rparr>) = 75"
proof -
  have refines: "calculatePerformanceScore m = spec_score m"
    by (rule score_eq_spec)
  have one_tier:
    "spec_fcp m = 0 \<or> spec_fcp m = 5 \<or> spec_fcp m = 15"
    "spec_lcp m = 0 \<or> spec_lcp m = 10 \<or> spec_lcp m = 20"
    "spec_fid m = 0 \<or> spec_fid m = 5 \<or> spec_fid m = 15"
    "spec_cls m = 0 \<or> spec_cls m = 10 \<or> spec_cls m = 20"
    unfolding spec_fcp_def spec_lcp_def spec_fid_def spec_cls_def
    by (rule spec_tier_cases)+
  have poor:
    "a1 > 1800 \<longrightarrow> calculatePerformanceScore (m\<lparr>firstContentfulPaint := Some a1\<rparr>)
         = calculatePerformanceScore (m\<lparr>firstContentfulPaint := None\<rparr>) - 15"
    "a2 > 4000 \<longrightarrow> calculatePerformanceScore (m\<lparr>largestContentfulPaint := Some a2\<rparr>)
         = calculatePerformanceScore (m\<lparr>largestContentfulPaint := None\<rparr>) - 20"
    "a3 > 300 \<longrightarrow> calculatePerformanceScore (m\<lparr>firstInputDelay := Some a3\<rparr>)
         = calculatePerformanceScore (m\<lparr>firstInputDelay := None\<rparr>) - 15"
    "a4 > 0.25 \<longrightarrow> calculatePerformanceScore (m\<lparr>cumulativeLayoutShift := Some a4\<rparr>)
         = calculatePerformanceScore (m\<lparr>cumulativeLayoutShift := None\<rparr>) - 20"
    by (simp_all add: score_unclamped spec_fcp_def spec_lcp_def spec_fid_def spec_cls_def
        spec_tier_def)
  have needs_improvement:
    "1000 < b1 \<and> b1 \<le> 1800 \<longrightarrow> calculatePerformanceScore (m\<lparr>firstContentfulPaint := Some b1\<rparr>)
         = calculatePerformanceScore (m\<lparr>firstContentfulPaint := None\<rparr>) - 5"
    "2500 < b2 \<and> b2 \<le> 4000 \<longrightarrow> calculatePerformanceScore (m\<lparr>largestContentfulPaint := Some b2\<rparr>)
         = calculatePerformanceScore (m\<lparr>largestContentfulPaint := None\<rparr>) - 10"
    "100 < b3 \<and> b3 \<le> 300 \<longrightarrow> calculatePerformanceScore (m\<lparr>firstInputDelay := Some b3\<rparr>)
         = calculatePerformanceScore (m\<lparr>firstInputDelay := None\<rparr>) - 5"
    "0.1 < b4 \<and> b4 \<le> 0.25 \<longrightarrow> calculatePerformanceScore (m\<lparr>cumulativeLayoutShift := Some b4\<rparr>)
         = calculatePerformanceScore (m\<lparr>cumulativeLayoutShift := None\<rparr>) - 10"
    by (simp_all add: score_unclamped spec_fcp_def spec_lcp_def spec_fid_def spec_cls_def
        spec_tier_def)
  have example: "calculatePerformanceScore
        (m\<lparr>firstContentfulPaint := Some 2000, largestContentfulPaint := Some 3000,
           firstInputDelay := Some 50, cumulativeLayoutShift := Some 0.05\<rparr>) = 75"
    by (simp add: calculatePerformanceScore_def deductedScore_def truthy_def gt_def)
  from refines one_tier poor needs_improvement example show ?thesis
    by blast
qed

theorem score_single_tier_witness:
  "calculatePerformanceScore (emptyMetrics\<lparr>firstContentfulPaint := Some 2000\<rparr>) = 85
   \<and> calculatePerformanceScore (emptyMetrics\<lparr>largestContentfulPaint := Some 5000\<rparr>) = 80
   \<and> calculatePerformanceScore (emptyMetrics\<lparr>firstInputDelay := Some 500\<rparr>) = 85
   \<and> calculatePerformanceScore (emptyMetrics\<lparr>cumulativeLayoutShift := Some 0.3\<rparr>) = 80
   \<and> calculatePerformanceScore (emptyMetrics\<lparr>firstContentfulPaint := Some 1500\<rparr>) = 95
   \<and> calculatePerformanceScore (emptyMetrics\<lparr>largestContentfulPaint := Some 3000\<rparr>) = 90
   \<and> calculatePerformanceScore (emptyMetrics\<lparr>firstInputDelay := Some 200\<rparr>) = 95
   \<and> calculatePerformanceScore (emptyMetrics\<lparr>cumulativeLayoutShift := Some 0.2\<rparr>) = 90"
proof -
  have unset: "calculatePerformanceScore emptyMetrics = 100"
    by (simp add: calculatePerformanceScore_def deductedScore_def truthy_def gt_def
        emptyMetrics_def)
  have same:
    "emptyMetrics\<lparr>firstContentfulPaint := None\<rparr> = emptyMetrics"
    "emptyMetrics\<lparr>largestContentfulPaint := None\<rparr> = emptyMetrics"
    "emptyMetrics\<lparr>firstInputDelay := None\<rparr> = emptyMetrics"
    "emptyMetrics\<lparr>cumulativeLayoutShift := None\<rparr> = emptyMetrics"
    by (simp_all add: emptyMetrics_def)
  have hyps: "(2000::real) > 1800" "(5000::real) > 4000" "(500::real) > 300" "(0.3::real) > 0.25"
    "(1000::real) < 1500 \<and> (1500::real) \<le> 1800" "(2500::real) < 3000 \<and> (3000::real) \<le> 4000"
    "(100::real) < 200 \<and> (200::real) \<le> 300" "(0.1::real) < 0.2 \<and> (0.2::real) \<le> 0.25"
    by simp_all
  show ?thesis
    using score_single_tier [of emptyMetrics 2000 5000 500 "0.3" 1500 3000 200 "0.2"] hyps
    unfolding same unset by simp
qed

lemma score_mono_some:
  assumes "v \<le> v'"
  shows "calculatePerformanceScore (m\<lparr>firstContentfulPaint := Some v'\<rparr>)
           \<le> calculatePerformanceScore (m\<lparr>firstContentfulPaint := Some v\<rparr>)"
    and "calculatePerformanceScore (m\<lparr>largestContentfulPaint := Some v'\<rparr>)
           \<le> calculatePerformanceScore (m\<lparr>largestContentfulPaint := Some v\<rparr>)"
    and "calculatePerformanceScore (m\<lparr>firstInputDelay := Some v'\<rparr>)
           \<le> calculatePerformanceScore (m\<lparr>firstInputDelay := Some v\<rparr>)"
    and "calculatePerformanceScore (m\<lparr>cumulativeLayoutShift := Some v'\<rparr>)
           \<le> calculatePerformanceScore (m\<lparr>cumulativeLayoutShift := Some v\<rparr>)"
  using spec_tier_mono [of v v' 1000 1800 5 15] spec_tier_mono [of v v' 2500 4000 10 20]
    spec_tier_mono [of v v' 100 300 5 15] spec_tier_mono [of v v' "0.1" "0.25" 10 20] assms
  by (simp_all add: score_unclamped spec_fcp_def spec_lcp_def spec_fid_def spec_cls_def)

lemma score_mono_unset:
  shows "calculatePerformanceScore (m\<lparr>firstContentfulPaint := Some v\<rparr>)
           \<le> calculatePerformanceScore (m\<lparr>firstContentfulPaint := None\<rparr>)"
    and "calculatePerformanceScore (m\<lparr>largestContentfulPaint := Some v\<rparr>)
           \<le> calculatePerformanceScore (m\<lparr>largestContentfulPaint := None\<rparr>)"
    and "calculatePerformanceScore (m\<lparr>firstInputDelay := Some v\<rparr>)
           \<le> calculatePerformanceScore (m\<lparr>firstInputDelay := None\<rparr>)"
    and "calculatePerformanceScore (m\<lparr>cumulativeLayoutShift := Some v\<rparr>)
           \<le> calculatePerformanceScore (m\<lparr>cumulativeLayoutShift := None\<rparr>)"
  by (simp_all add: score_unclamped spec_fcp_def spec_lcp_def spec_fid_def spec_cls_def
      spec_tier_def)

lemma score_unset:
  shows "firstContentfulPaint m = None \<longrightarrow>
           calculatePerformanceScore m = 100 - (spec_lcp m + spec_fid m + spec_cls m)"
    and "largestContentfulPaint m = None \<longrightarrow>
           calculatePerformanceScore m = 100 - (spec_fcp m + spec_fid m + spec_cls m)"
    and "firstInputDelay m = None \<longrightarrow>
           calculatePerformanceScore m = 100 - (spec_fcp m + spec_lcp m + spec_cls m)"
    and "cumulativeLayoutShift m = None \<longrightarrow>
           calculatePerformanceScore m = 100 - (spec_fcp m + spec_lcp m + spec_fid m)"
    and "firstContentfulPaint m = None \<and> largestContentfulPaint m = None \<and>
         firstInputDelay m = None \<and> cumulativeLayoutShift m = None \<longrightarrow>
           calculatePerformanceScore m = 100"
  by (simp_all add: score_unclamped spec_fcp_def spec_lcp_def spec_fid_def spec_cls_def
      spec_tier_def)

text \<open>
  Claim C2. For every snapshot the score is an integer between 0 and 100. An unset
  metric deducts nothing: the score is 100 minus the deductions of the other metrics,
  and 100 when all four are unset. The score never increases when one metric gets worse
  (larger) with the rest of the snapshot fixed, nor when an unset metric is set.
\<close>

theorem score_range_monotone:
  "0 \<le> calculatePerformanceScore m \<and> calculatePerformanceScore m \<le> 100
   \<and> (firstContentfulPaint m = None \<longrightarrow>
        calculatePerformanceScore m = 100 - (spec_lcp m + spec_fid m + spec_cls m))
   \<and> (largestContentfulPaint m = None \<longrightarrow>
        calculatePerformanceScore m = 100 - (spec_fcp m + spec_fid m + spec_cls m))
   \<and> (firstInputDelay m = None \<longrightarrow>
        calculatePerformanceScore m = 100 - (spec_fcp m + spec_lcp m + spec_cls m))
   \<and> (cumulativeLayoutShift m = None \<longrightarrow>
        calculatePerformanceScore m = 100 - (spec_fcp m + spec_lcp m + spec_fid m))
   \<and> (firstContentfulPaint m = None \<and> largestContentfulPaint m = None \<and>
       firstInputDelay m = None \<and> cumulativeLayoutShift m = None \<longrightarrow>
        calculatePerformanceScore m = 100)
   \<and> (v \<le> v' \<longrightarrow>
        calculatePerformanceScore (m\<lparr>firstContentfulPaint := Some v'\<rparr>)
          \<le> calculatePerformanceScore (m\<lparr>firstContentfulPaint := Some v\<rparr>)
        \<and> calculatePerformanceScore (m\<lparr>largestContentfulPaint := Some v'\<rparr>)
          \<le> calculatePerformanceScore (m\<lparr>largestContentfulPaint := Some v\<rparr>)
        \<and> calculatePerformanceScore (m\<lparr>firstInputDelay := Some v'\<rparr>)
          \<le> calculatePerformanceScore (m\<lparr>firstInputDelay := Some v\<rparr>)
        \<and> calculatePerformanceScore (m\<lparr>cumulativeLayoutShift := Some v'\<rparr>)
          \<le> calculatePerformanceScore (m\<lparr>cumulativeLayoutShift := Some v\<rparr>))
   \<and> calculatePerformanceScore (m\<lparr>firstContentfulPaint := Some v\<rparr>)
        \<le> calculatePerformanceScore (m\<lparr>firstContentfulPaint := None\<rparr>)
   \<and> calculatePerformanceScore (m\<lparr>largestContentfulPaint := Some v\<rparr>)
        \<le> calculatePerformanceScore (m\<lparr>largestContentfulPaint := None\<rparr>)
   \<and> calculatePerformanceScore (m\<lparr>firstInputDelay := Some v\<rparr>)
        \<le> calculatePerformanceScore (m\<lparr>firstInputDelay := None\<rparr>)
   \<and> calculatePerformanceScore (m\<lparr>cumulativeLayoutShift := Some v\<rparr>)
        \<le> calculatePerformanceScore (m\<lparr>cumulativeLayoutShift := None\<rparr>)"
proof -
  have range: "0 \<le> calculatePerformanceScore m \<and> calculatePerformanceScore m \<le> 100"
    using deductedScore_bounds [of m] by (simp add: calculatePerformanceScore_def)
  from range score_unset [of m] score_mono_some [where v = v and v' = v' and m = m] score_mono_unset [where m = m and v = v]
  show ?thesis by blast
qed

theorem score_range_monotone_witness:
  "calculatePerformanceScore (emptyMetrics\<lparr>cumulativeLayoutShift := Some 0.3\<rparr>) = 80
   \<and> calculatePerformanceScore (emptyMetrics\<lparr>firstContentfulPaint := Some 2000\<rparr>)
        \<le> calculatePerformanceScore (emptyMetrics\<lparr>firstContentfulPaint := Some 900\<rparr>)
   \<and> calculatePerformanceScore emptyMetrics = 100"
proof -
  have unset: "firstContentfulPaint (emptyMetrics\<lparr>cumulativeLayoutShift := Some 0.3\<rparr>) = None"
    "firstContentfulPaint emptyMetrics = None \<and> largestContentfulPaint emptyMetrics = None \<and>
     firstInputDelay emptyMetrics = None \<and> cumulativeLayoutShift emptyMetrics = None"
    by (simp_all add: emptyMetrics_def)
  have le: "(900::real) \<le> 2000" by simp
  have a: "calculatePerformanceScore (emptyMetrics\<lparr>cumulativeLayoutShift := Some 0.3\<rparr>) = 80"
    using score_range_monotone [of "emptyMetrics\<lparr>cumulativeLayoutShift := Some 0.3\<rparr>" 0 0] unset(1)
    by (simp add: spec_lcp_def spec_fid_def spec_cls_def spec_tier_def emptyMetrics_def)
  have b: "calculatePerformanceScore (emptyMetrics\<lparr>firstContentfulPaint := Some 2000\<rparr>)
        \<le> calculatePerformanceScore (emptyMetrics\<lparr>firstContentfulPaint := Some 900\<rparr>)
      \<and> calculatePerformanceScore emptyMetrics = 100"
    using score_range_monotone [of emptyMetrics 900 2000] unset(2) le by blast
  from a b show ?thesis by blast
qed

text \<open>
  Claim C10. The score is at least 30 for every snapshot: the deductions sum to at most
  15 + 20 + 15 + 20 = 70, so \<^verbatim>\<open>Math.max(0, score)\<close> returns \<^verbatim>\<open>score\<close> unchanged
  and the result is never 0. The floor 30 is reached.
\<close>

theorem score_floor_30:
  "30 \<le> calculatePerformanceScore m
   \<and> calculatePerformanceScore m = deductedScore m
   \<and> calculatePerformanceScore m \<noteq> 0
   \<and> calculatePerformanceScore
        (m\<lparr>firstContentfulPaint := Some 5000, largestContentfulPaint := Some 5000,
           firstInputDelay := Some 500, cumulativeLayoutShift := Some 0.3\<rparr>) = 30"
proof -
  have worst: "calculatePerformanceScore
        (m\<lparr>firstContentfulPaint := Some 5000, largestContentfulPaint := Some 5000,
           firstInputDelay := Some 500, cumulativeLayoutShift := Some 0.3\<rparr>) = 30"
    by (simp add: calculatePerformanceScore_def deductedScore_def truthy_def gt_def)
  show ?thesis
    using worst deductedScore_bounds [of m] by (simp add: calculatePerformanceScore_def)
qed

section \<open>Properties of the CLS observer\<close>

lemma updateMetrics_simps:
  "clsValue (updateMetrics n s) = clsValue s"
  "emitted (updateMetrics n s) = emitted s @ [n]"
  "metrics (updateMetrics n s) = spread (metrics s) n"
  by (simp_all add: updateMetrics_def Let_def)

lemma cls_entry_clsValue:
  "clsValue (cls_entry add e s) =
     (if hadRecentInput e then clsValue s else add (clsValue s) (value e))"
  by (simp add: cls_entry_def Let_def updateMetrics_simps)

lemma clsObserver_clsValue:
  "clsValue (clsObserver add entries s) =
     foldl add (clsValue s) (map value (filter (\<lambda>e. \<not> hadRecentInput e) entries))"
  unfolding clsObserver_def
  by (induction entries arbitrary: s) (simp_all add: cls_entry_clsValue)

lemma cls_session_clsValue:
  "clsValue (fold (clsObserver add) batches s) =
     foldl add (clsValue s)
       (map value (filter (\<lambda>e. \<not> hadRecentInput e) (concat batches)))"
  by (induction batches arbitrary: s) (simp_all add: clsObserver_clsValue)

lemma cls_entry_metric:
  "cumulativeLayoutShift (metrics (cls_entry add e s)) =
     (if hadRecentInput e then cumulativeLayoutShift (metrics s)
      else Some (add (clsValue s) (value e)))"
  by (simp add: cls_entry_def Let_def updateMetrics_simps spread_def spread_field_def)

lemma clsObserver_metric:
  "cumulativeLayoutShift (metrics (clsObserver add entries s)) =
     (if filter (\<lambda>e. \<not> hadRecentInput e) entries = [] then cumulativeLayoutShift (metrics s)
      else Some (clsValue (clsObserver add entries s)))"
  unfolding clsObserver_def
proof (induction entries arbitrary: s)
  case Nil
  then show ?case by simp
next
  case (Cons e es)
  show ?case
  proof (cases "hadRecentInput e")
    case True
    then have "cls_entry add e s = s" by (simp add: cls_entry_def)
    with Cons True show ?thesis by simp
  next
    case False
    have "cumulativeLayoutShift (metrics (cls_entry add e s)) = Some (clsValue (cls_entry add e s))"
      using False by (simp add: cls_entry_metric cls_entry_clsValue)
    with Cons [of "cls_entry add e s"] False show ?thesis
      by (simp add: clsObserver_clsValue [unfolded clsObserver_def])
  qed
qed

lemma cls_session_metric:
  "cumulativeLayoutShift (metrics (fold (clsObserver add) batches s)) =
     (if filter (\<lambda>e. \<not> hadRecentInput e) (concat batches) = []
      then cumulativeLayoutShift (metrics s)
      else Some (clsValue (fold (clsObserver add) batches s)))"
proof (induction batches arbitrary: s)
  case Nil
  then show ?case by simp
next
  case (Cons b bs)
  show ?case
  proof (cases "filter (\<lambda>e. \<not> hadRecentInput e) (concat bs) = []")
    case True
    then have "clsValue (fold (clsObserver add) bs (clsObserver add b s))
        = clsValue (clsObserver add b s)"
      by (simp add: cls_session_clsValue)
    with True Cons [of "clsObserver add b s"] show ?thesis
      by (simp add: clsObserver_metric)
  next
    case False
    with Cons [of "clsObserver add b s"] show ?thesis by simp
  qed
qed

lemma foldl_add_mono:
  assumes closed: "\<And>x y. D x \<Longrightarrow> D y \<Longrightarrow> D (add x y)"
    and grows: "\<And>x y. D x \<Longrightarrow> D y \<Longrightarrow> 0 \<le> y \<Longrightarrow> x \<le> add x y"
    and "D a" "\<forall>v \<in> set vs. D v \<and> 0 \<le> v"
  shows "(a::real) \<le> foldl add a vs"
  using assms(3,4)
proof (induction vs arbitrary: a)
  case Nil
  then show ?case by simp
next
  case (Cons v vs)
  have "a \<le> add a v" using Cons.prems by (simp add: grows)
  also have "add a v \<le> foldl add (add a v) vs"
    using Cons.prems by (intro Cons.IH) (simp_all add: closed)
  finally show ?case by simp
qed

text \<open>
  Claim C3. After any sequence of lists of layout-shift entries delivered to the CLS
  observer of a fresh session, \<^verbatim>\<open>clsValue\<close> is the sum, accumulated from 0 from
  left to right with the addition \<open>add\<close> of the code, of \<^verbatim>\<open>entry.value\<close> over the
  entries seen so far with \<^verbatim>\<open>hadRecentInput\<close> false, and
  \<^verbatim>\<open>cumulativeLayoutShift\<close> holds that sum once such an entry was seen. An entry
  with \<^verbatim>\<open>hadRecentInput\<close> true changes nothing at all. The accumulator does not
  decrease over a list of non-negative values, provided that on the set \<open>D\<close> of the
  numbers of the machine, which holds the accumulator and the values, \<open>add\<close> stays in
  \<open>D\<close> and adding a non-negative number does not give less, as holds of the rounding
  addition of doubles.
\<close>

theorem cls_accumulator:
  "clsValue (fold (clsObserver add) batches initialMonitor) =
      foldl add 0 (map value (filter (\<lambda>e. \<not> hadRecentInput e) (concat batches)))
   \<and> cumulativeLayoutShift (metrics (fold (clsObserver add) batches initialMonitor)) =
      (if filter (\<lambda>e. \<not> hadRecentInput e) (concat batches) = [] then None
       else Some (foldl add 0
              (map value (filter (\<lambda>e. \<not> hadRecentInput e) (concat batches)))))
   \<and> (hadRecentInput e \<longrightarrow> cls_entry add e s = s)
   \<and> ((\<forall>x y. D x \<and> D y \<longrightarrow> D (add x y)) \<and>
       (\<forall>x y. D x \<and> D y \<and> 0 \<le> y \<longrightarrow> x \<le> add x y) \<and>
       D (clsValue s) \<and> (\<forall>e \<in> set entries. D (value e) \<and> 0 \<le> value e) \<longrightarrow>
        clsValue s \<le> clsValue (clsObserver add entries s))"
proof -
  have a: "clsValue (fold (clsObserver add) batches initialMonitor) =
      foldl add 0 (map value (filter (\<lambda>e. \<not> hadRecentInput e) (concat batches)))"
    by (simp add: cls_session_clsValue initialMonitor_def)
  have b: "cumulativeLayoutShift (metrics (fold (clsObserver add) batches initialMonitor)) =
      (if filter (\<lambda>e. \<not> hadRecentInput e) (concat batches) = [] then None
       else Some (foldl add 0
              (map value (filter (\<lambda>e. \<not> hadRecentInput e) (concat batches)))))"
    unfolding cls_session_metric a by (simp add: initialMonitor_def emptyMetrics_def)
  have c: "hadRecentInput e \<longrightarrow> cls_entry add e s = s"
    by (simp add: cls_entry_def)
  have d: "clsValue s \<le> clsValue (clsObserver add entries s)"
    if "\<forall>x y. D x \<and> D y \<longrightarrow> D (add x y)"
      "\<forall>x y. D x \<and> D y \<and> 0 \<le> y \<longrightarrow> x \<le> add x y"
      "D (clsValue s)" "\<forall>e \<in> set entries. D (value e) \<and> 0 \<le> value e"
    unfolding clsObserver_clsValue
    by (rule foldl_add_mono [where D = D]) (use that in auto)
  from a b c d show ?thesis by blast
qed


text \<open>
  An instance: the values 0.5, 0.125 and 0.25 are doubles and their sums are exact in
  doubles, so \<open>add\<close> is \<open>(+)\<close> on them.
\<close>

theorem cls_accumulator_witness:
  "clsValue (fold (clsObserver (+))
      [[\<lparr>hadRecentInput = False, value = 0.5\<rparr>, \<lparr>hadRecentInput = True, value = 0.125\<rparr>],
       [\<lparr>hadRecentInput = False, value = 0.25\<rparr>]] initialMonitor) = 0.75
   \<and> cumulativeLayoutShift (metrics (fold (clsObserver (+))
      [[\<lparr>hadRecentInput = False, value = 0.5\<rparr>, \<lparr>hadRecentInput = True, value = 0.125\<rparr>],
       [\<lparr>hadRecentInput = False, value = 0.25\<rparr>]] initialMonitor)) = Some 0.75
   \<and> cls_entry (+) \<lparr>hadRecentInput = True, value = 0.125\<rparr> initialMonitor = initialMonitor
   \<and> clsValue initialMonitor
       \<le> clsValue (clsObserver (+) [\<lparr>hadRecentInput = False, value = 0.5\<rparr>] initialMonitor)"
proof -
  have closed: "\<forall>x y::real. True \<and> True \<longrightarrow> True" by simp
  have grows: "\<forall>x y::real. True \<and> True \<and> 0 \<le> y \<longrightarrow> x \<le> x + y" by simp
  have vals: "\<forall>e \<in> set [\<lparr>hadRecentInput = False, value = 0.5\<rparr>]. True \<and> 0 \<le> value e" by simp
  have input: "hadRecentInput \<lparr>hadRecentInput = True, value = 0.125\<rparr>" by simp
  show ?thesis
    using cls_accumulator [of "(+)"
      "[[\<lparr>hadRecentInput = False, value = 0.5\<rparr>, \<lparr>hadRecentInput = True, value = 0.125\<rparr>],
       [\<lparr>hadRecentInput = False, value = 0.25\<rparr>]]"
      "\<lparr>hadRecentInput = True, value = 0.125\<rparr>" initialMonitor "\<lambda>x. True"
      "[\<lparr>hadRecentInput = False, value = 0.5\<rparr>]"] closed grows vals input
    by simp
qed

section \<open>Properties of the FCP observer\<close>

lemma fcpObserver_emitted:
  "emitted (fcpObserver entries s) =
     emitted s @ (case find (\<lambda>entry. name entry = ''first-contentful-paint'') entries of
                    Some fcp \<Rightarrow> [emptyMetrics\<lparr>firstContentfulPaint := Some (startTime fcp)\<rparr>]
                  | None \<Rightarrow> [])"
  by (simp add: fcpObserver_def updateMetrics_simps split: option.split)

lemma fcpObserver_count:
  "length (emitted (fcpObserver entries s)) =
     length (emitted s) + (if \<exists>e \<in> set entries. name e = ''first-contentful-paint'' then 1 else 0)"
proof (cases "find (\<lambda>entry. name entry = ''first-contentful-paint'') entries")
  case None
  then have "\<not> (\<exists>e \<in> set entries. name e = ''first-contentful-paint'')"
    unfolding find_None_iff by blast
  with None show ?thesis by (simp add: fcpObserver_emitted)
next
  case (Some fcp)
  then have "find (\<lambda>entry. name entry = ''first-contentful-paint'') entries \<noteq> None" by simp
  then have "\<exists>e \<in> set entries. name e = ''first-contentful-paint''"
    unfolding find_None_iff by blast
  with Some show ?thesis by (simp add: fcpObserver_emitted)
qed

lemma fcp_session_count:
  "length (emitted (fold fcpObserver batches s)) =
     length (emitted s) +
     length (filter (\<lambda>entries. \<exists>e \<in> set entries. name e = ''first-contentful-paint'') batches)"
  by (induction batches arbitrary: s) (simp_all add: fcpObserver_count)

lemma find_first_hit:
  "P e \<Longrightarrow> \<forall>x \<in> set pre. \<not> P x \<Longrightarrow> find P (pre @ e # rest) = Some e"
  by (induction pre) simp_all

lemma fcpObserver_metric_hit:
  assumes "name e = ''first-contentful-paint''"
    and "\<forall>x \<in> set pre. name x \<noteq> ''first-contentful-paint''"
  shows "firstContentfulPaint (metrics (fcpObserver (pre @ e # rest) s)) = Some (startTime e)"
  using find_first_hit [of "\<lambda>entry. name entry = ''first-contentful-paint''" e pre rest] assms
  by (simp add: fcpObserver_def updateMetrics_simps spread_def spread_field_def)

lemma fcpObserver_miss:
  assumes "\<forall>x \<in> set entries. name x \<noteq> ''first-contentful-paint''"
  shows "fcpObserver entries s = s"
proof -
  have "find (\<lambda>entry. name entry = ''first-contentful-paint'') entries = None"
    unfolding find_None_iff using assms by blast
  then show ?thesis by (simp add: fcpObserver_def)
qed

lemma fcp_session_miss:
  assumes "\<forall>b \<in> set batches. \<forall>x \<in> set b. name x \<noteq> ''first-contentful-paint''"
  shows "fold fcpObserver batches s = s"
  using assms by (induction batches arbitrary: s) (simp_all add: fcpObserver_miss)

lemma fcp_session_last_wins:
  assumes "name e = ''first-contentful-paint''"
    and "\<forall>x \<in> set pre. name x \<noteq> ''first-contentful-paint''"
    and "\<forall>b \<in> set later. \<forall>x \<in> set b. name x \<noteq> ''first-contentful-paint''"
  shows "firstContentfulPaint
           (metrics (fold fcpObserver (earlier @ (pre @ e # rest) # later) s))
         = Some (startTime e)"
  using assms by (simp add: fcp_session_miss fcpObserver_metric_hit)


text \<open>
  Claim C5, as the code has it. One delivered list makes the FCP observer emit at most
  one update: the start time of the first entry named "first-contentful-paint" of the
  list, whatever follows it in the list, and that start time becomes
  \<^verbatim>\<open>firstContentfulPaint\<close>, whatever the field held. A list without such an entry
  changes nothing. Nothing is remembered between lists: over a session, one update is
  emitted for each delivered list that holds such an entry, and the field ends as the
  start time of the first such entry of the last list that holds one.
\<close>

theorem fcp_once_per_list:
  "length (emitted (fcpObserver entries s)) \<le> length (emitted s) + 1
   \<and> (name e = ''first-contentful-paint'' \<and>
       (\<forall>x \<in> set pre. name x \<noteq> ''first-contentful-paint'') \<longrightarrow>
        emitted (fcpObserver (pre @ e # rest) s) =
          emitted s @ [emptyMetrics\<lparr>firstContentfulPaint := Some (startTime e)\<rparr>]
        \<and> firstContentfulPaint (metrics (fcpObserver (pre @ e # rest) s)) = Some (startTime e))
   \<and> ((\<forall>x \<in> set entries. name x \<noteq> ''first-contentful-paint'') \<longrightarrow>
        fcpObserver entries s = s)
   \<and> length (emitted (fold fcpObserver batches s)) =
        length (emitted s) +
        length (filter (\<lambda>entries. \<exists>e \<in> set entries. name e = ''first-contentful-paint'') batches)
   \<and> (name e = ''first-contentful-paint'' \<and>
       (\<forall>x \<in> set pre. name x \<noteq> ''first-contentful-paint'') \<and>
       (\<forall>b \<in> set later. \<forall>x \<in> set b. name x \<noteq> ''first-contentful-paint'') \<longrightarrow>
        firstContentfulPaint
          (metrics (fold fcpObserver (earlier @ (pre @ e # rest) # later) s))
        = Some (startTime e))"
proof -
  have a: "length (emitted (fcpObserver entries s)) \<le> length (emitted s) + 1"
    by (simp add: fcpObserver_count)
  have b: "name e = ''first-contentful-paint'' \<and>
       (\<forall>x \<in> set pre. name x \<noteq> ''first-contentful-paint'') \<longrightarrow>
        emitted (fcpObserver (pre @ e # rest) s) =
          emitted s @ [emptyMetrics\<lparr>firstContentfulPaint := Some (startTime e)\<rparr>]"
    using find_first_hit [of "\<lambda>entry. name entry = ''first-contentful-paint''" e pre rest]
    by (simp add: fcpObserver_emitted)
  have c: "name e = ''first-contentful-paint'' \<and>
       (\<forall>x \<in> set pre. name x \<noteq> ''first-contentful-paint'') \<longrightarrow>
        firstContentfulPaint (metrics (fcpObserver (pre @ e # rest) s)) = Some (startTime e)"
    using fcpObserver_metric_hit [of e pre rest s] by blast
  have d: "(\<forall>x \<in> set entries. name x \<noteq> ''first-contentful-paint'') \<longrightarrow>
        fcpObserver entries s = s"
    using fcpObserver_miss [of entries s] by blast
  have f: "name e = ''first-contentful-paint'' \<and>
       (\<forall>x \<in> set pre. name x \<noteq> ''first-contentful-paint'') \<and>
       (\<forall>b \<in> set later. \<forall>x \<in> set b. name x \<noteq> ''first-contentful-paint'') \<longrightarrow>
        firstContentfulPaint
          (metrics (fold fcpObserver (earlier @ (pre @ e # rest) # later) s))
        = Some (startTime e)"
    using fcp_session_last_wins [of e pre later earlier rest s] by blast
  from a b c d fcp_session_count [of batches s] f show ?thesis by blast
qed

text \<open>
  Two delivered lists, each with an entry named "first-contentful-paint": two updates
  are emitted, and the second replaces the value of the first.
\<close>

theorem fcp_emitted_twice:
  "emitted (fold fcpObserver
      [[paint ''first-contentful-paint'' 100], [paint ''first-contentful-paint'' 200]]
      initialMonitor)
   = [emptyMetrics\<lparr>firstContentfulPaint := Some 100\<rparr>,
      emptyMetrics\<lparr>firstContentfulPaint := Some 200\<rparr>]
   \<and> firstContentfulPaint (metrics (fold fcpObserver
      [[paint ''first-contentful-paint'' 100], [paint ''first-contentful-paint'' 200]]
      initialMonitor)) = Some 200"
  by (simp add: fcpObserver_def paint_def updateMetrics_def initialMonitor_def
      spread_def spread_field_def emptyMetrics_def)

theorem fcp_once_per_list_witness:
  "length (emitted (fcpObserver
      [paint ''first-paint'' 90, paint ''first-contentful-paint'' 100,
       paint ''first-contentful-paint'' 200] initialMonitor)) \<le> 1
   \<and> emitted (fcpObserver
      [paint ''first-paint'' 90, paint ''first-contentful-paint'' 100,
       paint ''first-contentful-paint'' 200] initialMonitor)
     = [emptyMetrics\<lparr>firstContentfulPaint := Some 100\<rparr>]
   \<and> fcpObserver [paint ''first-paint'' 90] initialMonitor = initialMonitor
   \<and> length (emitted (fold fcpObserver
        [[paint ''first-paint'' 90], [paint ''first-contentful-paint'' 100],
         [paint ''first-contentful-paint'' 200]] initialMonitor)) = 2
   \<and> firstContentfulPaint (metrics (fold fcpObserver
        [[paint ''first-contentful-paint'' 50],
         [paint ''first-paint'' 90, paint ''first-contentful-paint'' 100,
          paint ''first-contentful-paint'' 200],
         [paint ''first-paint'' 300]] initialMonitor)) = Some 100"
proof -
  let ?pre = "[paint ''first-paint'' 90]"
  let ?e = "paint ''first-contentful-paint'' 100"
  let ?rest = "[paint ''first-contentful-paint'' 200]"
  let ?batches = "[[paint ''first-paint'' 90], [paint ''first-contentful-paint'' 100],
         [paint ''first-contentful-paint'' 200]]"
  have n: "name ?e = ''first-contentful-paint''"
    "\<forall>x \<in> set ?pre. name x \<noteq> ''first-contentful-paint''"
    "\<forall>b \<in> set [[paint ''first-paint'' 300]]. \<forall>x \<in> set b. name x \<noteq> ''first-contentful-paint''"
    by (simp_all add: paint_def)
  have t: "startTime ?e = 100"
    by (simp add: paint_def)
  have e: "emitted initialMonitor = []"
    by (simp add: initialMonitor_def)
  have c: "length (filter (\<lambda>entries. \<exists>e \<in> set entries. name e = ''first-contentful-paint'')
        ?batches) = 2"
    by (simp add: paint_def)
  have l: "?pre @ ?e # ?rest = [paint ''first-paint'' 90, paint ''first-contentful-paint'' 100,
       paint ''first-contentful-paint'' 200]"
    "[[paint ''first-contentful-paint'' 50]] @ (?pre @ ?e # ?rest) # [[paint ''first-paint'' 300]]
      = [[paint ''first-contentful-paint'' 50],
         [paint ''first-paint'' 90, paint ''first-contentful-paint'' 100,
          paint ''first-contentful-paint'' 200],
         [paint ''first-paint'' 300]]"
    by simp_all
  show ?thesis
    using fcp_once_per_list [where entries = "?pre" and s = initialMonitor and e = "?e"
        and pre = "?pre" and rest = "?rest" and batches = "?batches"
        and later = "[[paint ''first-paint'' 300]]"
        and earlier = "[[paint ''first-contentful-paint'' 50]]"] n
    unfolding t e c l
    by (simp add: paint_def initialMonitor_def fcpObserver_def updateMetrics_def spread_def
        spread_field_def emptyMetrics_def)
qed

section \<open>Properties of the FID observer\<close>

lemma fid_entry_emitted:
  "emitted (fid_entry e s) =
     emitted s @ (if truthy (processingStart e) \<and> truthy (startTime_any e)
                  then [emptyMetrics\<lparr>firstInputDelay :=
                          Some (the (processingStart e) - the (startTime_any e))\<rparr>]
                  else [])"
  by (simp add: fid_entry_def Let_def updateMetrics_simps)

lemma fidObserver_emitted:
  "emitted (fidObserver entries s) =
     emitted s @
     map (\<lambda>e. emptyMetrics\<lparr>firstInputDelay :=
                  Some (the (processingStart e) - the (startTime_any e))\<rparr>)
       (filter (\<lambda>e. truthy (processingStart e) \<and> truthy (startTime_any e)) entries)"
  unfolding fidObserver_def
  by (induction entries arbitrary: s) (simp_all add: fid_entry_emitted)

lemma qualifying_truthy:
  "qualifying e = (truthy (processingStart e) \<and> truthy (startTime_any e))"
  by (simp add: qualifying_def truthy_def split: option.split)

lemma qualifying_delay:
  "qualifying e \<Longrightarrow> the (processingStart e) - the (startTime_any e) = delay e"
  by (auto simp: qualifying_def delay_def split: option.splits)

text \<open>
  Claim C6, as the code has it. For every list of first-input entries the FID observer
  emits exactly one update {firstInputDelay: processingStart - startTime} per entry
  whose \<^verbatim>\<open>processingStart\<close> and \<^verbatim>\<open>startTime\<close> are both present and both different
  from 0, in the order of the list; any other entry leaves the state as it is. The
  callback has no failing path.
\<close>

theorem fid_one_update_per_truthy_entry:
  "emitted (fidObserver entries s) =
     emitted s @ map (\<lambda>e. emptyMetrics\<lparr>firstInputDelay := Some (delay e)\<rparr>)
                   (filter qualifying entries)
   \<and> (\<not> qualifying e \<longrightarrow> fid_entry e s = s)"
proof -
  have "map (\<lambda>e. emptyMetrics\<lparr>firstInputDelay :=
                  Some (the (processingStart e) - the (startTime_any e))\<rparr>)
          (filter qualifying entries)
        = map (\<lambda>e. emptyMetrics\<lparr>firstInputDelay := Some (delay e)\<rparr>) (filter qualifying entries)"
    by (rule map_cong) (simp_all add: qualifying_delay)
  moreover have "\<not> qualifying e \<longrightarrow> fid_entry e s = s"
    by (simp add: qualifying_truthy fid_entry_def)
  ultimately show ?thesis
    by (simp add: fidObserver_emitted qualifying_truthy [abs_def])
qed

text \<open>
  An entry with both fields present and \<^verbatim>\<open>startTime\<close> 0: no update is emitted.
\<close>

theorem fid_zero_startTime_skipped:
  "processingStart \<lparr>processingStart = Some 5, startTime_any = Some 0\<rparr> \<noteq> None
   \<and> startTime_any \<lparr>processingStart = Some 5, startTime_any = Some 0\<rparr> \<noteq> None
   \<and> emitted (fidObserver [\<lparr>processingStart = Some 5, startTime_any = Some 0\<rparr>] initialMonitor) = []"
  by (simp add: fidObserver_def fid_entry_def truthy_def initialMonitor_def)

theorem fid_one_update_per_truthy_entry_witness:
  "emitted (fidObserver
      [\<lparr>processingStart = Some 130, startTime_any = Some 100\<rparr>,
       \<lparr>processingStart = None, startTime_any = Some 100\<rparr>,
       \<lparr>processingStart = Some 5, startTime_any = Some 0\<rparr>,
       \<lparr>processingStart = Some 260, startTime_any = Some 250\<rparr>] initialMonitor)
   = [emptyMetrics\<lparr>firstInputDelay := Some 30\<rparr>, emptyMetrics\<lparr>firstInputDelay := Some 10\<rparr>]
   \<and> fid_entry \<lparr>processingStart = None, startTime_any = Some 100\<rparr> initialMonitor = initialMonitor"
  using fid_one_update_per_truthy_entry [of 
      "[\<lparr>processingStart = Some 130, startTime_any = Some 100\<rparr>,
       \<lparr>processingStart = None, startTime_any = Some 100\<rparr>,
       \<lparr>processingStart = Some 5, startTime_any = Some 0\<rparr>,
       \<lparr>processingStart = Some 260, startTime_any = Some 250\<rparr>]" initialMonitor
      "\<lparr>processingStart = None, startTime_any = Some 100\<rparr>"]
  by (simp add: qualifying_def delay_def initialMonitor_def)

section \<open>Properties of the resource timing collection\<close>

lemma largeResources_set:
  "set (largeResources es) \<subseteq> {e \<in> set es. transferSize e > 100000}"
  unfolding largeResources_def
  using set_take_subset [of 10 "sort_key (\<lambda>a. - transferSize a) (filter (\<lambda>entry. transferSize entry > 100000) es)"]
  by auto

lemma largeResources_sorted:
  "sorted (rev (map transferSize (largeResources es)))"
proof -
  let ?xs = "sort_key (\<lambda>a. - transferSize a) (filter (\<lambda>entry. transferSize entry > 100000) es)"
  have "sorted (map (\<lambda>a. - transferSize a) ?xs)" by (rule sorted_sort_key)
  then have "sorted (take 10 (map (\<lambda>a. - transferSize a) ?xs))" by (rule sorted_wrt_take)
  then have "sorted (map (\<lambda>a. - transferSize a) (largeResources es))"
    by (simp add: largeResources_def take_map)
  then show ?thesis
    by (simp add: sorted_wrt_rev sorted_map sorted_wrt_map)
qed

lemma largeResources_top:
  assumes "e \<in> set es" "transferSize e > 100000" "e \<notin> set (largeResources es)"
    "r \<in> set (largeResources es)"
  shows "transferSize e \<le> transferSize r"
proof -
  let ?xs = "sort_key (\<lambda>a. - transferSize a) (filter (\<lambda>entry. transferSize entry > 100000) es)"
  have s: "sorted (map (\<lambda>a. - transferSize a) (take 10 ?xs @ drop 10 ?xs))"
    by (simp del: sorted_map)
  have "e \<in> set ?xs" using assms(1,2) by simp
  then have "e \<in> set (take 10 ?xs) \<union> set (drop 10 ?xs)"
    by (metis append_take_drop_id set_append)
  with assms(3) have e: "e \<in> set (drop 10 ?xs)" by (simp add: largeResources_def)
  have r: "r \<in> set (take 10 ?xs)" using assms(4) by (simp add: largeResources_def)
  from s have "\<forall>x \<in> set (take 10 ?xs). \<forall>y \<in> set (drop 10 ?xs). - transferSize x \<le> - transferSize y"
    unfolding map_append sorted_append by auto
  with e r show ?thesis by auto
qed

lemma collect_resourceTiming:
  "resourceTiming (metrics (collectResourceTiming True True es s)) = Some (largeResources es)"
  by (simp add: collectResourceTiming_def updateMetrics_simps spread_def spread_field_def)



lemma sizes4:
  assumes "map f es = [a, b, c, d]"
  shows "\<exists>w x y z. es = [w, x, y, z] \<and> f w = a \<and> f x = b \<and> f y = c \<and> f z = d"
  using assms by (auto simp: map_eq_Cons_conv)

lemma largeResources_example:
  assumes "map transferSize es = [50000, 150000, 300000, 120000]"
  shows "map transferSize (largeResources es) = [300000, 150000, 120000]"
proof -
  from sizes4 [OF assms] obtain w x y z where es: "es = [w, x, y, z]"
    and sz: "transferSize w = 50000" "transferSize x = 150000" "transferSize y = 300000"
    "transferSize z = 120000" by blast
  show ?thesis unfolding es largeResources_def by (simp add: sz)
qed


lemma largeResources_length: "length (largeResources es) \<le> 10"
  by (simp add: largeResources_def)

lemma largeResources_full:
  assumes "e \<in> set es" "transferSize e > 100000" "e \<notin> set (largeResources es)"
  shows "length (largeResources es) = 10"
proof (rule ccontr)
  assume "length (largeResources es) \<noteq> 10"
  then have "length (filter (\<lambda>entry. transferSize entry > 100000) es) < 10"
    by (simp add: largeResources_def)
  then have "set (largeResources es) = set (filter (\<lambda>entry. transferSize entry > 100000) es)"
    by (simp add: largeResources_def)
  with assms show False by simp
qed

text \<open>
  Claim C9. A collection of resource timing sets \<^verbatim>\<open>resourceTiming\<close> to a list
  computed from the entries just read alone, whatever the field held before: entries
  of more than 100,000 transferred bytes, in descending order of size, at most 10 of
  them, and an entry of more than 100,000 bytes is left out only when 10 entries at
  least as large are kept. Sizes [50000, 150000, 300000, 120000] give
  [300000, 150000, 120000].
\<close>

theorem largeResources_rederived:
  "resourceTiming (metrics (collectResourceTiming True True es s)) = Some (largeResources es)
   \<and> (\<forall>r \<in> set (largeResources es). r \<in> set es \<and> transferSize r > 100000)
   \<and> sorted (rev (map transferSize (largeResources es)))
   \<and> length (largeResources es) \<le> 10
   \<and> (\<forall>e \<in> set es. transferSize e > 100000 \<and> e \<notin> set (largeResources es) \<longrightarrow>
        length (largeResources es) = 10 \<and>
        (\<forall>r \<in> set (largeResources es). transferSize e \<le> transferSize r))
   \<and> (map transferSize es = [50000, 150000, 300000, 120000] \<longrightarrow>
        map transferSize (largeResources es) = [300000, 150000, 120000])"
proof -
  have large: "\<forall>r \<in> set (largeResources es). r \<in> set es \<and> transferSize r > 100000"
    using largeResources_set [of es] by blast
  have top: "\<forall>e \<in> set es. transferSize e > 100000 \<and> e \<notin> set (largeResources es) \<longrightarrow>
        length (largeResources es) = 10 \<and>
        (\<forall>r \<in> set (largeResources es). transferSize e \<le> transferSize r)"
    using largeResources_full [of _ es] largeResources_top [of _ es] by blast
  have example: "map transferSize es = [50000, 150000, 300000, 120000] \<longrightarrow>
        map transferSize (largeResources es) = [300000, 150000, 120000]"
    using largeResources_example [of es] by blast
  from collect_resourceTiming [of es s] large largeResources_sorted [of es]
    largeResources_length [of es] top example
  show ?thesis by blast
qed

theorem largeResources_rederived_witness:
  "map transferSize (largeResources
      [resource ''a.js'' 50000, resource ''b.js'' 150000, resource ''c.js'' 300000,
       resource ''d.js'' 120000]) = [300000, 150000, 120000]
   \<and> resourceTiming (metrics (collectResourceTiming True True
      [resource ''a.js'' 50000, resource ''b.js'' 150000, resource ''c.js'' 300000,
       resource ''d.js'' 120000]
      (initialMonitor\<lparr>metrics := emptyMetrics\<lparr>resourceTiming := Some [resource ''old.js'' 999999]\<rparr>\<rparr>)))
     = Some [resource ''c.js'' 300000, resource ''b.js'' 150000, resource ''d.js'' 120000]
   \<and> length (largeResources (map (resource ''r'')
        [100005, 100011, 100001, 100007, 100003, 100009, 100002, 100010, 100004, 100008,
         100006])) = 10"
proof -
  have sizes: "map transferSize
      [resource ''a.js'' 50000, resource ''b.js'' 150000, resource ''c.js'' 300000,
       resource ''d.js'' 120000] = [50000, 150000, 300000, 120000]"
    by (simp add: resource_def)
  have val: "largeResources
      [resource ''a.js'' 50000, resource ''b.js'' 150000, resource ''c.js'' 300000,
       resource ''d.js'' 120000]
     = [resource ''c.js'' 300000, resource ''b.js'' 150000, resource ''d.js'' 120000]"
    by (simp add: largeResources_def resource_def)
  have first: "map transferSize (largeResources
      [resource ''a.js'' 50000, resource ''b.js'' 150000, resource ''c.js'' 300000,
       resource ''d.js'' 120000]) = [300000, 150000, 120000]
   \<and> resourceTiming (metrics (collectResourceTiming True True
      [resource ''a.js'' 50000, resource ''b.js'' 150000, resource ''c.js'' 300000,
       resource ''d.js'' 120000]
      (initialMonitor\<lparr>metrics := emptyMetrics\<lparr>resourceTiming := Some [resource ''old.js'' 999999]\<rparr>\<rparr>)))
     = Some [resource ''c.js'' 300000, resource ''b.js'' 150000, resource ''d.js'' 120000]"
    using largeResources_rederived [of
      "[resource ''a.js'' 50000, resource ''b.js'' 150000, resource ''c.js'' 300000,
       resource ''d.js'' 120000]"
      "initialMonitor\<lparr>metrics := emptyMetrics\<lparr>resourceTiming := Some [resource ''old.js'' 999999]\<rparr>\<rparr>"]
      sizes
    unfolding val by simp
  let ?es = "map (resource ''r'')
        [100005, 100011, 100001, 100007, 100003, 100009, 100002, 100010, 100004, 100008,
         100006]"
  have kept: "largeResources ?es = map (resource ''r'')
        [100011, 100010, 100009, 100008, 100007, 100006, 100005, 100004, 100003, 100002]"
    by (simp add: largeResources_def resource_def)
  have dropped: "resource ''r'' 100001 \<in> set ?es \<and> transferSize (resource ''r'' 100001) > 100000
      \<and> resource ''r'' 100001 \<notin> set (largeResources ?es)"
    unfolding kept by (simp add: resource_def)
  have second: "length (largeResources ?es) = 10"
    using largeResources_rederived [of ?es initialMonitor] dropped by blast
  from first second show ?thesis by blast
qed

section \<open>Cleanup of the performance monitor\<close>

text \<open>
  Claim C4 asks that teardown unregisters the FCP, LCP, FID and CLS observers and
  cancels every pending timer. The cleanup disconnects the one observer stored in
  \<^verbatim>\<open>observerRef\<close>: after a mount in which the four \<^verbatim>\<open>observe\<close> calls succeeded,
  the LCP, FID and CLS observers are still registered after it; when the last
  \<^verbatim>\<open>observe\<close> call throws, the three registered before it stay, for
  \<^verbatim>\<open>observerRef\<close> was not set; and the listener on \<^verbatim>\<open>load\<close> and the timeout it
  schedules are still there after the cleanup.
\<close>

theorem cleanup_leaves_observers:
  "observing (mount True (\<lambda>ob. True) True unmounted)
     = [FcpObserver, LcpObserver, FidObserver, ClsObserver]
   \<and> observing (cleanup (mount True (\<lambda>ob. True) True unmounted))
     = [LcpObserver, FidObserver, ClsObserver]
   \<and> observing (cleanup (mount True (\<lambda>ob. ob \<noteq> ClsObserver) True unmounted))
     = [FcpObserver, LcpObserver, FidObserver]
   \<and> pendingTimeouts (cleanup (loadEvent (mount True (\<lambda>ob. True) False unmounted))) = 1
   \<and> loadListeners (cleanup (mount True (\<lambda>ob. True) False unmounted)) = 1"
  by (simp add: mount_def observeWebVitals_def cleanup_def loadEvent_def unmounted_def)

section \<open>Properties of the debounced state hook\<close>

text \<open>
  Claim C7 asks that the delayed value, when the timer elapses, is the immediate value
  at that time, for functional updates too. The timer callback applies a functional
  update to the \<^verbatim>\<open>state\<close> its closure captured at the latest render: two calls
  \<^verbatim>\<open>setOptimizedState(prev => prev + 1)\<close> in one event handler, from 0, leave the
  immediate value 2 and, once the 300 ms have elapsed, the delayed value 1.
\<close>

theorem debounce_stale_updater:
  "storedState (advance 300 (handler 0 300
      [Updater (\<lambda>prev. prev + 1), Updater (\<lambda>prev. prev + 1)] (useOptimizedState (0::int)))) = 2
   \<and> state (advance 300 (handler 0 300
      [Updater (\<lambda>prev. prev + 1), Updater (\<lambda>prev. prev + 1)] (useOptimizedState (0::int)))) = 2
   \<and> debouncedState (advance 300 (handler 0 300
      [Updater (\<lambda>prev. prev + 1), Updater (\<lambda>prev. prev + 1)] (useOptimizedState (0::int)))) = 1
   \<and> timeouts (advance 300 (handler 0 300
      [Updater (\<lambda>prev. prev + 1), Updater (\<lambda>prev. prev + 1)] (useOptimizedState (0::int)))) = []"
  by (simp add: handler_def advance_def render_def setOptimizedState_def fire_def resolve_def
      clearTimeout_def useOptimizedState_def Let_def)

text \<open>
  With plain values the example of the claim holds: updates at 0, 50 and 100 ms, each in
  a handler of its own, leave one pending timeout; the delayed value is still the
  initial one at 399 ms and is the value submitted at 100 ms at 400 ms.
\<close>

lemma debounce_values_example:
  "debouncedState (advance 399 (handler 100 300 [Value c] (handler 50 300 [Value b]
      (handler 0 300 [Value a] (useOptimizedState i))))) = i
   \<and> debouncedState (advance 400 (handler 100 300 [Value c] (handler 50 300 [Value b]
      (handler 0 300 [Value a] (useOptimizedState i))))) = c
   \<and> state (advance 400 (handler 100 300 [Value c] (handler 50 300 [Value b]
      (handler 0 300 [Value a] (useOptimizedState i))))) = c
   \<and> length (timeouts (handler 100 300 [Value c] (handler 50 300 [Value b]
      (handler 0 300 [Value a] (useOptimizedState i))))) = 1"
  by (simp add: handler_def advance_def render_def setOptimizedState_def fire_def resolve_def
      clearTimeout_def useOptimizedState_def Let_def)

text \<open>
  In general, for an update with a plain value made in a handler of its own: the
  immediate value is the value at once, the delayed value is untouched before the
  timer is due and is the value from then on, with no timeout left.
\<close>

lemma setOptimizedState_fields:
  assumes "one_pending h"
  shows "timeouts (setOptimizedState now ms val h) = [(nextHandle h, now + ms, val, state h)]"
    and "timeoutRef (setOptimizedState now ms val h) = Some (nextHandle h)"
    and "storedState (setOptimizedState now ms val h) = resolve val (storedState h)"
    and "state (setOptimizedState now ms val h) = state h"
    and "debouncedState (setOptimizedState now ms val h) = debouncedState h"
    and "one_pending (setOptimizedState now ms val h)"
  using assms
  by (auto simp: one_pending_def setOptimizedState_def clearTimeout_def Let_def
      split: option.splits)

lemma fire_fields:
  "timeouts (fire t h) = timeouts h"
  "timeoutRef (fire t h) = timeoutRef h"
  "storedState (fire t h) = storedState h"
  "state (fire t h) = state h"
  by (simp_all add: fire_def split: prod.split)

lemma fold_fire_fields:
  "timeouts (fold fire ts h) = timeouts h"
  "timeoutRef (fold fire ts h) = timeoutRef h"
  "storedState (fold fire ts h) = storedState h"
  "state (fold fire ts h) = state h"
  by (induction ts arbitrary: h) (simp_all add: fire_fields)

lemma advance_fields:
  "timeouts (advance now h) = filter (\<lambda>t. \<not> fst (snd t) \<le> now) (timeouts h)"
  "timeoutRef (advance now h) = timeoutRef h"
  "storedState (advance now h) = storedState h"
  "state (advance now h) = storedState h"
  by (simp_all add: advance_def render_def fold_fire_fields)

lemma one_pending_advance: "one_pending h \<Longrightarrow> one_pending (advance now h)"
  by (cases "timeoutRef h")
    (auto simp: one_pending_def advance_fields split: if_splits)

lemma handler_value:
  assumes "one_pending h"
  shows "timeouts (handler now ms [Value v] h)
           = [(nextHandle (advance now h), now + ms, Value v, storedState h)]"
    and "storedState (handler now ms [Value v] h) = v"
    and "state (handler now ms [Value v] h) = v"
    and "debouncedState (handler now ms [Value v] h) = debouncedState (advance now h)"
  using setOptimizedState_fields [OF one_pending_advance [OF assms], of now ms "Value v" now]
  by (simp_all add: handler_def render_def resolve_def advance_fields)

lemma debounce_value_settles:
  assumes "one_pending h" "now + ms \<le> t"
  shows "debouncedState (advance t (handler now ms [Value v] h)) = v"
    and "state (advance t (handler now ms [Value v] h)) = v"
    and "timeouts (advance t (handler now ms [Value v] h)) = []"
  using assms(2) handler_value [OF assms(1), of now ms v]
  by (simp_all add: advance_fields) (simp add: advance_def render_def fire_def resolve_def)

lemma debounce_value_pending:
  assumes "one_pending h" "t < now + ms"
  shows "debouncedState (advance t (handler now ms [Value v] h)) = debouncedState (advance now h)"
    and "state (advance t (handler now ms [Value v] h)) = v"
  using assms(2) handler_value [OF assms(1), of now ms v]
  by (simp_all add: advance_fields) (simp add: advance_def render_def)

section \<open>Properties of the batched state hook\<close>

lemma batchedSetState_fields:
  assumes "one_timeout h"
  shows "batchTimeouts (batchedSetState u h) = [batchNextHandle h]"
    and "batchTimeoutRef (batchedSetState u h) = Some (batchNextHandle h)"
    and "pendingUpdatesRef (batchedSetState u h) = pendingUpdatesRef h ++ u"
    and "batchedState (batchedSetState u h) = batchedState h"
    and "queuedUpdaters (batchedSetState u h) = queuedUpdaters h"
    and "one_timeout (batchedSetState u h)"
  using assms
  by (auto simp: one_timeout_def batchedSetState_def Let_def split: option.splits)

lemma one_timeout_fold:
  "one_timeout h \<Longrightarrow> one_timeout (fold batchedSetState us h)"
  by (induction us arbitrary: h) (simp_all add: batchedSetState_fields)

lemma fold_batched_fields:
  assumes "one_timeout h"
  shows "pendingUpdatesRef (fold batchedSetState us h)
           = fold (\<lambda>u acc. acc ++ u) us (pendingUpdatesRef h)"
    and "batchedState (fold batchedSetState us h) = batchedState h"
    and "queuedUpdaters (fold batchedSetState us h) = queuedUpdaters h"
  using assms
  by (induction us arbitrary: h) (simp_all add: batchedSetState_fields)

lemma fold_batched_timeouts:
  assumes "one_timeout h" "us \<noteq> []"
  shows "length (batchTimeouts (fold batchedSetState us h)) = 1"
  using assms
proof (induction us arbitrary: h rule: rev_induct)
  case Nil
  then show ?case by simp
next
  case (snoc u us)
  have "one_timeout (fold batchedSetState us h)"
    using snoc.prems(1) by (rule one_timeout_fold)
  then show ?case by (simp add: batchedSetState_fields)
qed

lemma tick_single:
  "length (batchTimeouts h) = 1 \<Longrightarrow> tick eager h = flush eager (h\<lparr>batchTimeouts := []\<rparr>)"
  by (cases "batchTimeouts h") (simp_all add: tick_def)

lemma flush_eager_fields:
  "batchedState (flush True h) = batchedState h ++ pendingUpdatesRef h"
  "pendingUpdatesRef (flush True h) = Map.empty"
  "batchTimeouts (flush True h) = batchTimeouts h"
  "queuedUpdaters (flush True h) = queuedUpdaters h"
  by (simp_all add: flush_def run_updater_def Let_def)

lemma flush_deferred_fields:
  "batchedState (flush False h) = batchedState h"
  "pendingUpdatesRef (flush False h) = Map.empty"
  "batchTimeouts (flush False h) = batchTimeouts h"
  "queuedUpdaters (flush False h) = queuedUpdaters h + 1"
  by (simp_all add: flush_def Let_def)

lemma run_queued_empty:
  "pendingUpdatesRef h = Map.empty \<Longrightarrow> run_queued n h = h"
  by (induction n arbitrary: h) (simp_all add: run_updater_def)

lemma render_batched_empty:
  "pendingUpdatesRef h = Map.empty \<Longrightarrow>
   batchedState (render_batched h) = batchedState h \<and>
   pendingUpdatesRef (render_batched h) = Map.empty \<and>
   batchTimeouts (render_batched h) = batchTimeouts h \<and>
   queuedUpdaters (render_batched h) = 0"
  by (simp add: render_batched_def run_queued_empty)

lemma fresh_one_timeout: "one_timeout (useBatchedState init)"
  by (simp add: one_timeout_def useBatchedState_def)

lemma three_updates_merge:
  "init ++ fold (\<lambda>u acc. acc ++ u) [[''a'' \<mapsto> 1], [''b'' \<mapsto> 2], [''a'' \<mapsto> 3]] Map.empty
     = init(''a'' \<mapsto> 3::int, ''b'' \<mapsto> 2)"
  by (rule ext) (simp add: map_add_def)

text \<open>
  Whatever React does with the updater, a non-empty run of updates leaves one pending
  timeout, and the tick runs one flush, which empties the accumulator. On the eager
  path the flush commits the accumulator; when the updater is deferred, the render
  that follows commits nothing.
\<close>

lemma batched_one_flush:
  assumes "one_timeout h" "us \<noteq> []"
  shows "length (batchTimeouts (fold batchedSetState us h)) = 1"
    and "tick eager (fold batchedSetState us h)
          = flush eager ((fold batchedSetState us h)\<lparr>batchTimeouts := []\<rparr>)"
    and "pendingUpdatesRef (tick eager (fold batchedSetState us h)) = Map.empty"
    and "batchTimeouts (tick eager (fold batchedSetState us h)) = []"
proof -
  show one: "length (batchTimeouts (fold batchedSetState us h)) = 1"
    using assms by (rule fold_batched_timeouts)
  then show t: "tick eager (fold batchedSetState us h)
          = flush eager ((fold batchedSetState us h)\<lparr>batchTimeouts := []\<rparr>)"
    by (rule tick_single)
  show "pendingUpdatesRef (tick eager (fold batchedSetState us h)) = Map.empty"
    and "batchTimeouts (tick eager (fold batchedSetState us h)) = []"
    unfolding t by (cases eager; simp add: flush_eager_fields flush_deferred_fields)+
qed

lemma batched_eager_commit:
  assumes "one_timeout h" "us \<noteq> []"
  shows "batchedState (render_batched (tick True (fold batchedSetState us h)))
           = batchedState h ++ fold (\<lambda>u acc. acc ++ u) us (pendingUpdatesRef h)"
  using batched_one_flush(2,3) [OF assms, of True] fold_batched_fields [OF assms(1), of us]
  by (simp add: render_batched_empty flush_eager_fields)

lemma batched_deferred_lost:
  assumes "one_timeout h" "us \<noteq> []"
  shows "batchedState (render_batched (tick False (fold batchedSetState us h))) = batchedState h"
  using batched_one_flush(2,3) [OF assms, of False] fold_batched_fields [OF assms(1), of us]
  by (simp add: render_batched_empty flush_deferred_fields)

text \<open>
  On the eager path, as on a fresh hook, the updates {a:1}, {b:2}, {a:3} commit
  {a:3, b:2}.
\<close>

lemma batched_example_eager:
  "batchedState (render_batched (tick True (fold batchedSetState
        [[''a'' \<mapsto> 1], [''b'' \<mapsto> 2], [''a'' \<mapsto> 3]] (useBatchedState Map.empty))))
     = [''a'' \<mapsto> 3::int, ''b'' \<mapsto> 2]"
proof -
  have ne: "[[''a'' \<mapsto> 1::int], [''b'' \<mapsto> 2], [''a'' \<mapsto> 3]] \<noteq> []" by simp
  have "batchedState (render_batched (tick True (fold batchedSetState
        [[''a'' \<mapsto> 1], [''b'' \<mapsto> 2], [''a'' \<mapsto> 3]] (useBatchedState Map.empty))))
     = Map.empty ++ fold (\<lambda>u acc. acc ++ u)
           [[''a'' \<mapsto> 1::int], [''b'' \<mapsto> 2], [''a'' \<mapsto> 3]] Map.empty"
    using batched_eager_commit [OF fresh_one_timeout ne, of Map.empty]
    by (simp add: useBatchedState_def)
  also have "\<dots> = [''a'' \<mapsto> 3::int, ''b'' \<mapsto> 2]"
    by (rule three_updates_merge)
  finally show ?thesis .
qed

text \<open>
  Claim C8 asks that the flush merges the pending accumulator into the committed state
  and clears the accumulator. On a hook that has flushed before, React runs the updater
  at the render that follows the timeout callback, when
  \<^verbatim>\<open>pendingUpdatesRef.current = {}\<close> has been executed: the update {a:1} is
  committed by the first flush; the update {b:2}, submitted next, is in the accumulator
  with one timeout pending; after the tick and the render the committed state is still
  {a:1} and the accumulator is empty.
\<close>

theorem batched_flush_loses_batch:
  "batchedState (render_batched (tick True
      (batchedSetState [''a'' \<mapsto> 1] (useBatchedState Map.empty)))) = [''a'' \<mapsto> 1::int]
   \<and> pendingUpdatesRef (batchedSetState [''b'' \<mapsto> 2] (render_batched (tick True
      (batchedSetState [''a'' \<mapsto> 1::int] (useBatchedState Map.empty))))) = [''b'' \<mapsto> 2]
   \<and> batchTimeouts (batchedSetState [''b'' \<mapsto> 2] (render_batched (tick True
      (batchedSetState [''a'' \<mapsto> 1::int] (useBatchedState Map.empty))))) = [2]
   \<and> batchedState (render_batched (tick False (batchedSetState [''b'' \<mapsto> 2]
      (render_batched (tick True
        (batchedSetState [''a'' \<mapsto> 1] (useBatchedState Map.empty))))))) = [''a'' \<mapsto> 1::int]
   \<and> pendingUpdatesRef (render_batched (tick False (batchedSetState [''b'' \<mapsto> 2]
      (render_batched (tick True
        (batchedSetState [''a'' \<mapsto> 1::int] (useBatchedState Map.empty))))))) = Map.empty
   \<and> batchTimeouts (render_batched (tick False (batchedSetState [''b'' \<mapsto> 2]
      (render_batched (tick True
        (batchedSetState [''a'' \<mapsto> 1::int] (useBatchedState Map.empty))))))) = []"
  by (simp add: render_batched_def tick_def flush_def run_updater_def batchedSetState_def
      useBatchedState_def Let_def)

end
